theory Spec2Isabelle
  imports Main "HOL-Library.Word"
begin

section \<open>JavaScript values used by the pastebin sources\<close>

text \<open>
  A JavaScript string is a sequence of 16-bit code units; an \<open>ArrayBuffer\<close> or
  \<open>Uint8Array\<close> is a sequence of bytes. Literals of the sources are ASCII and are
  written through \<open>str\<close>.
\<close>

type_synonym byte = "8 word"
type_synonym bytes = "byte list"
type_synonym codeunit = "16 word"
type_synonym jsstring = "codeunit list"

definition cu :: "char \<Rightarrow> codeunit" where
  "cu c = of_nat (of_char c)"

definition str :: "string \<Rightarrow> jsstring" where
  "str s = map cu s"

text \<open>
  Errors thrown by the platform or by the sources. \<open>Error msg\<close> is the plain
  \<open>new Error(msg)\<close> of the sources; the others are the exceptions of the built-ins.
\<close>

datatype jsError = DataError | OperationError | RangeError | SyntaxError | Error string

subsection \<open>String built-ins\<close>

text \<open>
  \<open>s.substring(a, b)\<close>: both indices are clamped to the length and swapped when
  \<open>a > b\<close>; \<open>None\<close> stands for an omitted end.
\<close>

definition substring :: "nat \<Rightarrow> nat option \<Rightarrow> jsstring \<Rightarrow> jsstring" where
  "substring a b s =
     (let len = length s;
          intStart = min a len;
          intEnd = (case b of None \<Rightarrow> len | Some e \<Rightarrow> min e len);
          from = min intStart intEnd;
          to = max intStart intEnd
      in take (to - from) (drop from s))"

text \<open>\<open>s.padStart(n, c)\<close> for a one-unit filler \<open>c\<close>.\<close>

definition padStart :: "nat \<Rightarrow> codeunit \<Rightarrow> jsstring \<Rightarrow> jsstring" where
  "padStart n c s = (if n \<le> length s then s else replicate (n - length s) c @ s)"

text \<open>\<open>s.endsWith(c)\<close> for a one-unit search string \<open>c\<close>.\<close>

definition endsWith :: "codeunit \<Rightarrow> jsstring \<Rightarrow> bool" where
  "endsWith c s = (s \<noteq> [] \<and> last s = c)"

text \<open>
  Digits of \<open>Number.prototype.toString(radix)\<close> and of \<open>parseInt\<close>: \<open>0..9\<close>, then
  letters; \<open>toString\<close> writes lower case, \<open>parseInt\<close> reads both cases.
\<close>

definition digitChar :: "nat \<Rightarrow> codeunit" where
  "digitChar d = (if d < 10 then of_nat (48 + d) else of_nat (97 + (d - 10)))"

function toStringRadix :: "nat \<Rightarrow> nat \<Rightarrow> jsstring" where
  "toStringRadix r n =
     (if r < 2 \<or> n < r then [digitChar n]
      else toStringRadix r (n div r) @ [digitChar (n mod r)])"
  by pat_completeness auto
termination
  by (relation "measure (\<lambda>(r, n). n)") auto

declare toStringRadix.simps [simp del]

definition digitValue :: "codeunit \<Rightarrow> nat option" where
  "digitValue c =
     (if 48 \<le> c \<and> c \<le> 57 then Some (unat c - 48)
      else if 97 \<le> c \<and> c \<le> 122 then Some (unat c - 97 + 10)
      else if 65 \<le> c \<and> c \<le> 90 then Some (unat c - 65 + 10)
      else None)"

definition isRadixDigit :: "nat \<Rightarrow> codeunit \<Rightarrow> bool" where
  "isRadixDigit r c = (case digitValue c of None \<Rightarrow> False | Some d \<Rightarrow> d < r)"

text \<open>Line terminators, and the white space that \<open>parseInt\<close> skips (ECMAScript StrWhiteSpaceChar).\<close>

definition isLineTerminator :: "codeunit \<Rightarrow> bool" where
  "isLineTerminator c = (c = 0x000A \<or> c = 0x000D \<or> c = 0x2028 \<or> c = 0x2029)"

definition isStrWhiteSpaceChar :: "codeunit \<Rightarrow> bool" where
  "isStrWhiteSpaceChar c =
     (c = 0x0009 \<or> c = 0x000B \<or> c = 0x000C \<or> c = 0x0020 \<or> c = 0x00A0 \<or> c = 0xFEFF
      \<or> c = 0x1680 \<or> (0x2000 \<le> c \<and> c \<le> 0x200A) \<or> c = 0x202F \<or> c = 0x205F \<or> c = 0x3000
      \<or> isLineTerminator c)"

text \<open>
  \<open>parseInt(s, radix)\<close>, with \<open>radix = 0\<close> for an omitted radix. The result is
  \<open>None\<close> for \<open>NaN\<close>. Steps as in ECMAScript: skip leading white space, read a sign,
  fix the radix, strip a \<open>0x\<close> prefix when the radix is 16 or omitted, read the longest
  prefix of digits, \<open>NaN\<close> when it is empty. Numbers are integers here: \<open>-0\<close> is \<open>0\<close>.
\<close>

definition digitsValue :: "nat \<Rightarrow> jsstring \<Rightarrow> nat" where
  "digitsValue r z = foldl (\<lambda>acc c. acc * r + the (digitValue c)) 0 z"

definition parseInt :: "jsstring \<Rightarrow> nat \<Rightarrow> int option" where
  "parseInt inputString radix =
     (let s0 = dropWhile isStrWhiteSpaceChar inputString;
          sign = (if s0 \<noteq> [] \<and> hd s0 = cu CHR ''-'' then - 1 else 1 :: int);
          s1 = (if s0 \<noteq> [] \<and> (hd s0 = cu CHR ''+'' \<or> hd s0 = cu CHR ''-'') then tl s0 else s0)
      in if radix \<noteq> 0 \<and> (radix < 2 \<or> 36 < radix) then None
         else
           let stripPrefix = (radix = 0 \<or> radix = 16);
               r0 = (if radix = 0 then 10 else radix);
               hasPrefix = (stripPrefix \<and> 2 \<le> length s1
                            \<and> (take 2 s1 = str ''0x'' \<or> take 2 s1 = str ''0X''));
               s2 = (if hasPrefix then drop 2 s1 else s1);
               r = (if hasPrefix then 16 else r0);
               z = takeWhile (isRadixDigit r) s2
           in if z = [] then None else Some (sign * int (digitsValue r z)))"

text \<open>
  \<open>hex.match(/.{1,2}/g)\<close>: the successive matches of one or two units, greedy; the dot
  does not match a line terminator, so such units are skipped and end a match. The
  result \<open>null\<close> (no match at all) is the empty list here.
\<close>

fun matchPairs :: "jsstring \<Rightarrow> jsstring list" where
  "matchPairs [] = []"
| "matchPairs [a] = (if isLineTerminator a then [] else [[a]])"
| "matchPairs (a # b # rest) =
     (if isLineTerminator a then matchPairs (b # rest)
      else if isLineTerminator b then [a] # matchPairs rest
      else [a, b] # matchPairs rest)"

text \<open>
  An element stored into a \<open>Uint8Array\<close> is converted by ToUint8: \<open>NaN\<close> becomes 0,
  any other number is taken modulo 256.
\<close>

definition toUint8 :: "int option \<Rightarrow> byte" where
  "toUint8 v = (case v of None \<Rightarrow> 0 | Some n \<Rightarrow> word_of_int n)"

section \<open>utils/crypto.ts: the hex codec\<close>

definition arrayBufferToHex :: "bytes \<Rightarrow> jsstring" where
  "arrayBufferToHex buffer =
     concat (map (\<lambda>b. padStart 2 (cu CHR ''0'') (toStringRadix 16 (unat b))) buffer)"

definition hexToArrayBuffer :: "jsstring \<Rightarrow> bytes" where
  "hexToArrayBuffer hex =
     (case matchPairs hex of
        [] \<Rightarrow> []
      | ms \<Rightarrow> map (\<lambda>byte. toUint8 (parseInt byte 16)) ms)"


section \<open>utils/crypto.ts: text to bytes and back\<close>

text \<open>
  \<open>new TextEncoder().encode(str)\<close>: the string is first converted to scalar values, an
  unpaired surrogate becoming U+FFFD, and each scalar value is written in UTF-8.
\<close>

definition isHighSurrogate :: "codeunit \<Rightarrow> bool" where
  "isHighSurrogate c = (0xD800 \<le> c \<and> c \<le> 0xDBFF)"

definition isLowSurrogate :: "codeunit \<Rightarrow> bool" where
  "isLowSurrogate c = (0xDC00 \<le> c \<and> c \<le> 0xDFFF)"

fun toScalarValues :: "jsstring \<Rightarrow> nat list" where
  "toScalarValues [] = []"
| "toScalarValues [c] = (if isHighSurrogate c \<or> isLowSurrogate c then [0xFFFD] else [unat c])"
| "toScalarValues (c # d # rest) =
     (if isHighSurrogate c then
        (if isLowSurrogate d
         then (0x10000 + (unat c - 0xD800) * 0x400 + (unat d - 0xDC00)) # toScalarValues rest
         else 0xFFFD # toScalarValues (d # rest))
      else if isLowSurrogate c then 0xFFFD # toScalarValues (d # rest)
      else unat c # toScalarValues (d # rest))"

definition utf8Encode :: "nat \<Rightarrow> bytes" where
  "utf8Encode cp =
     (if cp < 0x80 then [of_nat cp]
      else if cp < 0x800 then [of_nat (0xC0 + cp div 64), of_nat (0x80 + cp mod 64)]
      else if cp < 0x10000 then
        [of_nat (0xE0 + cp div 4096), of_nat (0x80 + cp div 64 mod 64), of_nat (0x80 + cp mod 64)]
      else
        [of_nat (0xF0 + cp div 262144), of_nat (0x80 + cp div 4096 mod 64),
         of_nat (0x80 + cp div 64 mod 64), of_nat (0x80 + cp mod 64)])"

definition strToUint8Array :: "jsstring \<Rightarrow> bytes" where
  "strToUint8Array s = concat (map utf8Encode (toScalarValues s))"

text \<open>
  \<open>new TextDecoder().decode(buffer)\<close>: the UTF-8 decoder of the Encoding Standard, not
  fatal, so every ill-formed sequence gives U+FFFD. Its state is the code point read so
  far, the number of continuation bytes still needed, and the bounds for the next byte.
  A byte outside the bounds ends the sequence with U+FFFD and is read again in the
  initial state. The masks \<open>byte & 0x1F\<close>, \<open>& 0xF\<close>, \<open>& 0x7\<close>, \<open>& 0x3F\<close> are
  written as remainders.
\<close>

function utf8Decode :: "nat \<Rightarrow> nat \<Rightarrow> nat \<Rightarrow> nat \<Rightarrow> bytes \<Rightarrow> nat list" where
  "utf8Decode cp needed lower upper [] = (if needed \<noteq> 0 then [0xFFFD] else [])"
| "utf8Decode cp needed lower upper (b # bs) =
     (if needed = 0 then
        (if unat b \<le> 0x7F then unat b # utf8Decode 0 0 0x80 0xBF bs
         else if 0xC2 \<le> unat b \<and> unat b \<le> 0xDF then utf8Decode (unat b mod 32) 1 0x80 0xBF bs
         else if 0xE0 \<le> unat b \<and> unat b \<le> 0xEF then
           utf8Decode (unat b mod 16) 2
             (if unat b = 0xE0 then 0xA0 else 0x80) (if unat b = 0xED then 0x9F else 0xBF) bs
         else if 0xF0 \<le> unat b \<and> unat b \<le> 0xF4 then
           utf8Decode (unat b mod 8) 3
             (if unat b = 0xF0 then 0x90 else 0x80) (if unat b = 0xF4 then 0x8F else 0xBF) bs
         else 0xFFFD # utf8Decode 0 0 0x80 0xBF bs)
      else if unat b < lower \<or> upper < unat b then 0xFFFD # utf8Decode 0 0 0x80 0xBF (b # bs)
      else if needed = 1 then (cp * 64 + unat b mod 64) # utf8Decode 0 0 0x80 0xBF bs
      else utf8Decode (cp * 64 + unat b mod 64) (needed - 1) 0x80 0xBF bs)"
  by pat_completeness auto
termination
  by (relation "measure (\<lambda>(cp, needed, lower, upper, bs).
                 2 * length bs + (if needed = 0 then 0 else 1))") auto

text \<open>A scalar value as UTF-16: one unit, or a surrogate pair above U+FFFF.\<close>

definition utf16Encode :: "nat \<Rightarrow> jsstring" where
  "utf16Encode cp =
     (if cp < 0x10000 then [of_nat cp]
      else [of_nat (0xD800 + (cp - 0x10000) div 0x400), of_nat (0xDC00 + (cp - 0x10000) mod 0x400)])"

text \<open>
  The decoder is created with the default options, so \<open>ignoreBOM\<close> is false: when the
  first scalar value decoded is U+FEFF it is taken as a byte order mark and left out of
  the result.
\<close>

definition skipBOM :: "nat list \<Rightarrow> nat list" where
  "skipBOM cps = (case cps of [] \<Rightarrow> [] | c # rest \<Rightarrow> if c = 0xFEFF then rest else c # rest)"

definition uint8ArrayToStr :: "bytes \<Rightarrow> jsstring" where
  "uint8ArrayToStr buffer = concat (map utf16Encode (skipBOM (utf8Decode 0 0 0x80 0xBF buffer)))"

text \<open>\<open>String.prototype.isWellFormed\<close>: no unpaired surrogate.\<close>

fun isWellFormed :: "jsstring \<Rightarrow> bool" where
  "isWellFormed [] = True"
| "isWellFormed [c] = (\<not> isHighSurrogate c \<and> \<not> isLowSurrogate c)"
| "isWellFormed (c # d # rest) =
     (if isHighSurrogate c then isLowSurrogate d \<and> isWellFormed rest
      else \<not> isLowSurrogate c \<and> isWellFormed (d # rest))"


text \<open>The scalar values: code points up to U+10FFFF that are not surrogates.\<close>

definition isScalar :: "nat \<Rightarrow> bool" where
  "isScalar cp = (cp < 0x110000 \<and> \<not> (0xD800 \<le> cp \<and> cp \<le> 0xDFFF))"

section \<open>utils/crypto.ts: keys, encryption and decryption\<close>

text \<open>
  The cipher and the key derivation are the browser's (\<open>window.crypto.subtle\<close>) and are
  parameters of the model: AES-GCM encryption and decryption under raw key material and
  an IV, and PBKDF2 with HMAC-SHA-256 giving 256 bits from a password, a salt and an
  iteration count. Decryption fails with an exception when the authentication tag does
  not verify. A \<open>CryptoKey\<close> is modelled by its raw key material.
\<close>

type_synonym cryptoKey = bytes

record platform =
  aesGcmEncrypt :: "cryptoKey \<Rightarrow> bytes \<Rightarrow> bytes \<Rightarrow> bytes"
  aesGcmDecrypt :: "cryptoKey \<Rightarrow> bytes \<Rightarrow> bytes \<Rightarrow> jsError + bytes"
  pbkdf2HmacSha256 :: "bytes \<Rightarrow> bytes \<Rightarrow> nat \<Rightarrow> cryptoKey"

text \<open>
  \<open>subtle.importKey('raw', keyData, {name: 'AES-GCM'}, ...)\<close> throws a DataError unless
  the key data has 128, 192 or 256 bits.
\<close>

definition subtleImportKey :: "bytes \<Rightarrow> jsError + cryptoKey" where
  "subtleImportKey keyData =
     (if length keyData = 16 \<or> length keyData = 24 \<or> length keyData = 32
      then Inr keyData else Inl DataError)"

text \<open>
  \<open>window.crypto.getRandomValues(new Uint8Array(n))\<close> reads the next \<open>n\<close> bytes of
  the random source, which is part of the state.
\<close>

record randomSource =
  tape :: "nat \<Rightarrow> byte"
  pos :: nat

definition getRandomValues :: "nat \<Rightarrow> randomSource \<Rightarrow> bytes \<times> randomSource" where
  "getRandomValues n rs = (map (tape rs) [pos rs..<pos rs + n], rs\<lparr>pos := pos rs + n\<rparr>)"

definition deriveKeyFromPassword :: "platform \<Rightarrow> jsstring \<Rightarrow> bytes \<Rightarrow> cryptoKey" where
  "deriveKeyFromPassword pf password salt =
     pbkdf2HmacSha256 pf (strToUint8Array password) salt 100000"

definition importKey :: "jsstring \<Rightarrow> jsError + cryptoKey" where
  "importKey hexKey = (let keyData = hexToArrayBuffer hexKey in subtleImportKey keyData)"

definition encrypt ::
  "platform \<Rightarrow> jsstring \<Rightarrow> jsstring \<Rightarrow> randomSource \<Rightarrow> (jsError + jsstring) \<times> randomSource" where
  "encrypt pf text hexKey rs =
     (case importKey hexKey of
        Inl e \<Rightarrow> (Inl e, rs)
      | Inr key \<Rightarrow>
          let (iv, rs1) = getRandomValues 12 rs;
              encrypted = aesGcmEncrypt pf key iv (strToUint8Array text);
              ivHex = arrayBufferToHex iv;
              encryptedHex = arrayBufferToHex encrypted
          in (Inr (ivHex @ encryptedHex), rs1))"

definition encryptWithPassword ::
  "platform \<Rightarrow> jsstring \<Rightarrow> jsstring \<Rightarrow> randomSource \<Rightarrow> jsstring \<times> randomSource" where
  "encryptWithPassword pf text password rs =
     (let (salt, rs1) = getRandomValues 16 rs;
          (iv, rs2) = getRandomValues 12 rs1;
          key = deriveKeyFromPassword pf password salt;
          encrypted = aesGcmEncrypt pf key iv (strToUint8Array text);
          saltHex = arrayBufferToHex salt;
          ivHex = arrayBufferToHex iv;
          encryptedHex = arrayBufferToHex encrypted
      in (saltHex @ ivHex @ encryptedHex, rs2))"

text \<open>
  \<open>decrypt\<close> first cuts the envelope and decodes both parts, then imports the key
  (outside the \<open>try\<close>), then decrypts and decodes the text inside the \<open>try\<close>, whose
  \<open>catch\<close> replaces any exception by one fixed \<open>Error\<close>.
\<close>

definition decrypt :: "platform \<Rightarrow> jsstring \<Rightarrow> jsstring \<Rightarrow> jsError + jsstring" where
  "decrypt pf ciphertext hexKey =
     (let ivHex = substring 0 (Some 24) ciphertext;
          encryptedHex = substring 24 None ciphertext;
          iv = hexToArrayBuffer ivHex;
          encrypted = hexToArrayBuffer encryptedHex
      in case importKey hexKey of
           Inl e \<Rightarrow> Inl e
         | Inr key \<Rightarrow>
             (case aesGcmDecrypt pf key iv encrypted of
                Inl e \<Rightarrow> Inl (Error ''Failed to decrypt: Invalid key or corrupted data'')
              | Inr decrypted \<Rightarrow> Inr (uint8ArrayToStr decrypted)))"

definition decryptWithPassword :: "platform \<Rightarrow> jsstring \<Rightarrow> jsstring \<Rightarrow> jsError + jsstring" where
  "decryptWithPassword pf ciphertext password =
     (let saltHex = substring 0 (Some 32) ciphertext;
          ivHex = substring 32 (Some 56) ciphertext;
          encryptedHex = substring 56 None ciphertext;
          salt = hexToArrayBuffer saltHex;
          iv = hexToArrayBuffer ivHex;
          encrypted = hexToArrayBuffer encryptedHex;
          key = deriveKeyFromPassword pf password salt
      in case aesGcmDecrypt pf key iv encrypted of
           Inl e \<Rightarrow> Inl (Error ''Failed to decrypt: Invalid password or corrupted data'')
         | Inr decrypted \<Rightarrow> Inr (uint8ArrayToStr decrypted))"

text \<open>The first lines of \<open>decrypt\<close> on their own: the IV and the ciphertext read from an envelope.\<close>

definition decryptDecode :: "jsstring \<Rightarrow> bytes \<times> bytes" where
  "decryptDecode ciphertext =
     (hexToArrayBuffer (substring 0 (Some 24) ciphertext),
      hexToArrayBuffer (substring 24 None ciphertext))"

subsection \<open>What is required of the cipher\<close>

text \<open>
  Decryption under the key and IV of the encryption returns the plaintext; decryption
  under another key of the same length fails the tag check. The second property holds
  for AES-GCM up to a negligible probability and is taken here without exception.
\<close>

definition aeadCorrect :: "platform \<Rightarrow> bool" where
  "aeadCorrect pf = (\<forall>key iv m. aesGcmDecrypt pf key iv (aesGcmEncrypt pf key iv m) = Inr m)"

definition aeadRejectsOtherKey :: "platform \<Rightarrow> bool" where
  "aeadRejectsOtherKey pf =
     (\<forall>k1 k2 iv m. length k1 = length k2 \<and> k1 \<noteq> k2
        \<longrightarrow> isl (aesGcmDecrypt pf k2 iv (aesGcmEncrypt pf k1 iv m)))"

text \<open>A 256-bit key as the sources pass it around: 64 hexadecimal digits.\<close>

definition isHexKey :: "jsstring \<Rightarrow> bool" where
  "isHexKey k = (length k = 64 \<and> list_all (isRadixDigit 16) k)"

subsection \<open>A small cipher to run the functions on\<close>

text \<open>
  An executable stand-in for the platform: the ciphertext is the plaintext followed by a
  tag made of the key and the IV, which decryption checks and removes. It has no
  secrecy; it meets the two requirements above and lets the functions be evaluated.
\<close>

definition demoEncrypt :: "cryptoKey \<Rightarrow> bytes \<Rightarrow> bytes \<Rightarrow> bytes" where
  "demoEncrypt key iv m = m @ key @ iv"

definition demoDecrypt :: "cryptoKey \<Rightarrow> bytes \<Rightarrow> bytes \<Rightarrow> jsError + bytes" where
  "demoDecrypt key iv c =
     (let n = length key + length iv
      in if n \<le> length c \<and> drop (length c - n) c = key @ iv
         then Inr (take (length c - n) c) else Inl OperationError)"

definition demoPbkdf2 :: "bytes \<Rightarrow> bytes \<Rightarrow> nat \<Rightarrow> cryptoKey" where
  "demoPbkdf2 password salt iterations = take 32 (salt @ password @ replicate 32 0)"

definition demoPlatform :: platform where
  "demoPlatform =
     \<lparr>aesGcmEncrypt = demoEncrypt, aesGcmDecrypt = demoDecrypt, pbkdf2HmacSha256 = demoPbkdf2\<rparr>"

definition countingSource :: "nat \<Rightarrow> randomSource" where
  "countingSource start = \<lparr>tape = (\<lambda>i. of_nat i), pos = start\<rparr>"


text \<open>
  The composition the round-trip properties speak of: encrypt under one key, then decrypt
  the envelope returned under a key that may be another one; likewise with passwords.
\<close>

definition decrypt_encrypt ::
  "platform \<Rightarrow> jsstring \<Rightarrow> jsstring \<Rightarrow> jsstring \<Rightarrow> randomSource \<Rightarrow> jsError + jsstring" where
  "decrypt_encrypt pf text encKey decKey rs =
     (case fst (encrypt pf text encKey rs) of
        Inl e \<Rightarrow> Inl e
      | Inr envelope \<Rightarrow> decrypt pf envelope decKey)"

definition decrypt_encryptWithPassword ::
  "platform \<Rightarrow> jsstring \<Rightarrow> jsstring \<Rightarrow> jsstring \<Rightarrow> randomSource \<Rightarrow> jsError + jsstring" where
  "decrypt_encryptWithPassword pf text encPassword decPassword rs =
     decryptWithPassword pf (fst (encryptWithPassword pf text encPassword rs)) decPassword"

definition demoKey :: jsstring where
  "demoKey = str ''000102030405060708090a0b0c0d0e0f101112131415161718191a1b1c1d1e1f''"

definition demoKey2 :: jsstring where
  "demoKey2 = str ''ff0102030405060708090a0b0c0d0e0f101112131415161718191a1b1c1d1e1f''"

section \<open>Dates as the sources use them\<close>

text \<open>
  A \<open>Date\<close> holds a time value, milliseconds since the epoch in UTC, or \<open>NaN\<close>
  (\<open>None\<close>), the invalid date. A number is an integer or \<open>NaN\<close>; this is exact for
  every value that \<open>TimeClip\<close> lets through. The functions below are those of the
  ECMAScript specification of \<open>Date\<close>, with its names.
\<close>

definition msPerSecond :: int where "msPerSecond = 1000"
definition msPerMinute :: int where "msPerMinute = 60000"
definition msPerHour :: int where "msPerHour = 3600000"
definition msPerDay :: int where "msPerDay = 86400000"

definition Day :: "int \<Rightarrow> int" where "Day t = t div msPerDay"
definition TimeWithinDay :: "int \<Rightarrow> int" where "TimeWithinDay t = t mod msPerDay"
definition HourFromTime :: "int \<Rightarrow> int" where "HourFromTime t = (t div msPerHour) mod 24"
definition MinFromTime :: "int \<Rightarrow> int" where "MinFromTime t = (t div msPerMinute) mod 60"
definition SecFromTime :: "int \<Rightarrow> int" where "SecFromTime t = (t div msPerSecond) mod 60"
definition msFromTime :: "int \<Rightarrow> int" where "msFromTime t = t mod msPerSecond"

definition DaysInYear :: "int \<Rightarrow> int" where
  "DaysInYear y =
     (if y mod 4 \<noteq> 0 then 365 else if y mod 100 \<noteq> 0 then 366
      else if y mod 400 \<noteq> 0 then 365 else 366)"

definition DayFromYear :: "int \<Rightarrow> int" where
  "DayFromYear y = 365 * (y - 1970) + (y - 1969) div 4 - (y - 1901) div 100 + (y - 1601) div 400"

lemma DayFromYear_step: "DayFromYear y < DayFromYear (y + 1)"
proof -
  define a b c where abc: "a = (y - 1969) div 4" "b = (y - 1901) div 100" "c = (y - 1601) div 400"
  define a' b' c' where abc': "a' = (y - 1968) div 4" "b' = (y - 1900) div 100" "c' = (y - 1600) div 400"
  have "a \<le> a'" unfolding abc abc' by (rule zdiv_mono1) simp_all
  moreover have "c \<le> c'" unfolding abc abc' by (rule zdiv_mono1) simp_all
  moreover have "b' \<le> b + 1"
  proof -
    have "(y - 1900) div 100 \<le> (y - 1901 + 100) div 100" by (rule zdiv_mono1) simp_all
    then show ?thesis unfolding abc abc' by simp
  qed
  moreover have "DayFromYear y = 365 * (y - 1970) + a - b + c"
    "DayFromYear (y + 1) = 365 * (y - 1969) + a' - b' + c'"
    by (simp_all add: DayFromYear_def abc abc')
  ultimately show ?thesis by simp
qed

text \<open>
  \<open>YearFromTime(t)\<close> is the largest year that starts at or before \<open>t\<close>. It is found
  from the estimate \<open>1970 + Day(t) div 365\<close> by stepping down, then up.
\<close>

function yearDown :: "int \<Rightarrow> int \<Rightarrow> int" where
  "yearDown d y = (if d < DayFromYear y then yearDown d (y - 1) else y)"
  by pat_completeness auto
termination
proof (relation "measure (\<lambda>(d, y). nat (DayFromYear y - d))")
  show "wf (measure (\<lambda>(d, y). nat (DayFromYear y - d)))" by simp
next
  fix d y :: int
  assume "d < DayFromYear y"
  then show "((d, y - 1), (d, y)) \<in> measure (\<lambda>(d, y). nat (DayFromYear y - d))"
    using DayFromYear_step [of "y - 1"] by simp
qed

function yearUp :: "int \<Rightarrow> int \<Rightarrow> int" where
  "yearUp d y = (if DayFromYear (y + 1) \<le> d then yearUp d (y + 1) else y)"
  by pat_completeness auto
termination
proof (relation "measure (\<lambda>(d, y). nat (d + 1 - DayFromYear (y + 1)))")
  show "wf (measure (\<lambda>(d, y). nat (d + 1 - DayFromYear (y + 1))))" by simp
next
  fix d y :: int
  assume "DayFromYear (y + 1) \<le> d"
  then show "((d, y + 1), (d, y)) \<in> measure (\<lambda>(d, y). nat (d + 1 - DayFromYear (y + 1)))"
    using DayFromYear_step [of "y + 1"] by simp
qed

declare yearDown.simps [simp del] yearUp.simps [simp del]

definition YearFromTime :: "int \<Rightarrow> int" where
  "YearFromTime t = yearUp (Day t) (yearDown (Day t) (1970 + Day t div 365))"

definition InLeapYear :: "int \<Rightarrow> int" where
  "InLeapYear t = (if DaysInYear (YearFromTime t) = 366 then 1 else 0)"

definition DayWithinYear :: "int \<Rightarrow> int" where
  "DayWithinYear t = Day t - DayFromYear (YearFromTime t)"

text \<open>The day of the year on which month \<open>m\<close> (from 0) starts; \<open>leap\<close> is 1 in a leap year.\<close>

definition monthStart :: "int \<Rightarrow> int \<Rightarrow> int" where
  "monthStart m leap =
     (if m = 0 then 0 else if m = 1 then 31 else if m = 2 then 59 + leap
      else if m = 3 then 90 + leap else if m = 4 then 120 + leap else if m = 5 then 151 + leap
      else if m = 6 then 181 + leap else if m = 7 then 212 + leap else if m = 8 then 243 + leap
      else if m = 9 then 273 + leap else if m = 10 then 304 + leap else 334 + leap)"

definition MonthFromTime :: "int \<Rightarrow> int" where
  "MonthFromTime t =
     (let d = DayWithinYear t; leap = InLeapYear t
      in if d < 31 then 0 else if d < 59 + leap then 1 else if d < 90 + leap then 2
         else if d < 120 + leap then 3 else if d < 151 + leap then 4 else if d < 181 + leap then 5
         else if d < 212 + leap then 6 else if d < 243 + leap then 7 else if d < 273 + leap then 8
         else if d < 304 + leap then 9 else if d < 334 + leap then 10 else 11)"

definition DateFromTime :: "int \<Rightarrow> int" where
  "DateFromTime t = DayWithinYear t - monthStart (MonthFromTime t) (InLeapYear t) + 1"

definition MakeTime :: "int \<Rightarrow> int \<Rightarrow> int \<Rightarrow> int \<Rightarrow> int" where
  "MakeTime hour minute sec ms = hour * msPerHour + minute * msPerMinute + sec * msPerSecond + ms"

text \<open>
  \<open>MakeDay(year, month, date)\<close>: the day number of the first day of the month, plus
  \<open>date - 1\<close>; the month may lie outside 0..11 and then moves the year.
\<close>

definition MakeDay :: "int \<Rightarrow> int \<Rightarrow> int \<Rightarrow> int" where
  "MakeDay year month date =
     (let ym = year + month div 12;
          mn = month mod 12
      in DayFromYear ym + monthStart mn (if DaysInYear ym = 366 then 1 else 0) + date - 1)"

definition MakeDate :: "int \<Rightarrow> int \<Rightarrow> int" where
  "MakeDate day time = day * msPerDay + time"

definition TimeClip :: "int \<Rightarrow> int option" where
  "TimeClip t = (if 8640000000000000 < \<bar>t\<bar> then None else Some t)"

text \<open>
  The parts of the browser that \<open>services/api.ts\<close> relies on and that are not fixed by
  the language: the offset of local time (\<open>LocalTZA(t, isUTC)\<close>, which varies with
  daylight saving), the parsing of a date string by \<open>new Date(string)\<close>, and JSON for a
  paste record.
\<close>

record PasteData =
  ciphertext :: jsstring
  expiresAt :: jsstring
  hasPassword :: "bool option"

record PasteResponse = PasteData +
  id' :: jsstring

record browser =
  LocalTZA :: "int \<Rightarrow> bool \<Rightarrow> int"
  dateParse :: "jsstring \<Rightarrow> int option"
  jsonStringify :: "PasteData \<Rightarrow> jsstring"
  jsonParse :: "jsstring \<Rightarrow> jsError + PasteData"

definition LocalTime :: "browser \<Rightarrow> int \<Rightarrow> int" where
  "LocalTime br t = t + LocalTZA br t True"

definition UTC :: "browser \<Rightarrow> int \<Rightarrow> int" where
  "UTC br t = t - LocalTZA br t False"

definition getHours :: "browser \<Rightarrow> int \<Rightarrow> int" where
  "getHours br tv = HourFromTime (LocalTime br tv)"

definition getMinutes :: "browser \<Rightarrow> int \<Rightarrow> int" where
  "getMinutes br tv = MinFromTime (LocalTime br tv)"

definition getDate :: "browser \<Rightarrow> int \<Rightarrow> int" where
  "getDate br tv = DateFromTime (LocalTime br tv)"

text \<open>The setters, on a valid date; a \<open>NaN\<close> argument makes the date invalid.\<close>

definition setHours :: "browser \<Rightarrow> int \<Rightarrow> int option \<Rightarrow> int option" where
  "setHours br tv hour =
     (case hour of
        None \<Rightarrow> None
      | Some h \<Rightarrow>
          let t = LocalTime br tv;
              date = MakeDate (Day t) (MakeTime h (MinFromTime t) (SecFromTime t) (msFromTime t))
          in TimeClip (UTC br date))"

definition setMinutes :: "browser \<Rightarrow> int \<Rightarrow> int option \<Rightarrow> int option" where
  "setMinutes br tv minute =
     (case minute of
        None \<Rightarrow> None
      | Some m \<Rightarrow>
          let t = LocalTime br tv;
              date = MakeDate (Day t) (MakeTime (HourFromTime t) m (SecFromTime t) (msFromTime t))
          in TimeClip (UTC br date))"

definition setDate :: "browser \<Rightarrow> int \<Rightarrow> int option \<Rightarrow> int option" where
  "setDate br tv date =
     (case date of
        None \<Rightarrow> None
      | Some dt \<Rightarrow>
          let t = LocalTime br tv;
              newDate = MakeDate (MakeDay (YearFromTime t) (MonthFromTime t) dt) (TimeWithinDay t)
          in TimeClip (UTC br newDate))"

text \<open>\<open>toISOString\<close> throws a RangeError on an invalid date.\<close>

definition padNumber :: "nat \<Rightarrow> int \<Rightarrow> jsstring" where
  "padNumber n v = padStart n (cu CHR ''0'') (toStringRadix 10 (nat v))"

definition isoYear :: "int \<Rightarrow> jsstring" where
  "isoYear y =
     (if 0 \<le> y \<and> y \<le> 9999 then padNumber 4 y
      else (if y < 0 then cu CHR ''-'' else cu CHR ''+'') # padNumber 6 \<bar>y\<bar>)"

definition toISOString :: "int option \<Rightarrow> jsError + jsstring" where
  "toISOString tv =
     (case tv of
        None \<Rightarrow> Inl RangeError
      | Some t \<Rightarrow>
          Inr (isoYear (YearFromTime t) @ str ''-'' @ padNumber 2 (MonthFromTime t + 1) @ str ''-''
               @ padNumber 2 (DateFromTime t) @ str ''T'' @ padNumber 2 (HourFromTime t) @ str '':''
               @ padNumber 2 (MinFromTime t) @ str '':'' @ padNumber 2 (SecFromTime t) @ str ''.''
               @ padNumber 3 (msFromTime t) @ str ''Z''))"

text \<open>Addition of numbers, and the comparison \<open><\<close> of two dates: false when either is invalid.\<close>

definition plus :: "int \<Rightarrow> int option \<Rightarrow> int option" where
  "plus a b = (case b of None \<Rightarrow> None | Some v \<Rightarrow> Some (a + v))"

definition dateLess :: "int option \<Rightarrow> int option \<Rightarrow> bool" where
  "dateLess a b = (case a of None \<Rightarrow> False | Some x \<Rightarrow> (case b of None \<Rightarrow> False | Some y \<Rightarrow> x < y))"

section \<open>services/api.ts\<close>

text \<open>
  \<open>localStorage\<close> is a map from keys to strings and is passed through. The clock is
  read once in each function; its value \<open>now\<close> is an argument, as is the string that
  \<open>Math.random().toString(36)\<close> gives.
\<close>

type_synonym storage = "jsstring \<rightharpoonup> jsstring"

definition API_PREFIX :: jsstring where
  "API_PREFIX = str ''pastebin_''"

definition ttlToExpiresAt :: "browser \<Rightarrow> int \<Rightarrow> jsstring \<Rightarrow> jsError + jsstring" where
  "ttlToExpiresAt br now ttl =
     (let value = parseInt ttl 0;
          expiresAt =
            (if endsWith (cu CHR ''h'') ttl then setHours br now (plus (getHours br now) value)
             else if endsWith (cu CHR ''d'') ttl then setDate br now (plus (getDate br now) value)
             else if endsWith (cu CHR ''m'') ttl then setMinutes br now (plus (getMinutes br now) value)
             else setHours br now (Some (getHours br now + 24)))
      in toISOString expiresAt)"

definition generateId :: "jsstring \<Rightarrow> jsstring" where
  "generateId random36 = substring 2 (Some 10) random36"

definition createPaste ::
  "browser \<Rightarrow> int \<Rightarrow> jsstring \<Rightarrow> storage \<Rightarrow> jsstring \<Rightarrow> jsstring \<Rightarrow> bool
     \<Rightarrow> (jsError + PasteResponse) \<times> storage" where
  "createPaste br now random36 localStorage c ttl hp =
     (let ident = generateId random36
      in case ttlToExpiresAt br now ttl of
           Inl e \<Rightarrow> (Inl e, localStorage)
         | Inr e \<Rightarrow>
             let pasteData = \<lparr>ciphertext = c, expiresAt = e, hasPassword = Some hp\<rparr>
             in (Inr \<lparr>ciphertext = c, expiresAt = e, hasPassword = Some hp, id' = ident\<rparr>,
                 localStorage(API_PREFIX @ ident \<mapsto> jsonStringify br pasteData)))"

definition fetchPaste ::
  "browser \<Rightarrow> int \<Rightarrow> storage \<Rightarrow> jsstring \<Rightarrow> (jsError + PasteData option) \<times> storage" where
  "fetchPaste br now localStorage ident =
     (case localStorage (API_PREFIX @ ident) of
        None \<Rightarrow> (Inr None, localStorage)
      | Some pasteJson \<Rightarrow>
          if pasteJson = [] then (Inr None, localStorage)
          else
            (case jsonParse br pasteJson of
               Inl e \<Rightarrow> (Inl e, localStorage)
             | Inr parsed \<Rightarrow>
                 let paste = (if hasPassword parsed = None
                              then parsed\<lparr>hasPassword := Some False\<rparr> else parsed)
                 in if dateLess (dateParse br (expiresAt paste)) (Some now)
                    then (Inr None, localStorage(API_PREFIX @ ident := None))
                    else (Inr (Some paste), localStorage)))"

text \<open>
  The time to live that a \<open>ttl\<close> string stands for, as the description of
  \<open>ttlToExpiresAt\<close> has it: its number of hours, days or minutes by its last letter,
  24 hours without such a letter, and nothing when the letter has no number before it.
\<close>

definition ttlDuration :: "jsstring \<Rightarrow> int option" where
  "ttlDuration ttl =
     (if endsWith (cu CHR ''h'') ttl then map_option (\<lambda>n. n * msPerHour) (parseInt ttl 0)
      else if endsWith (cu CHR ''d'') ttl then map_option (\<lambda>n. n * msPerDay) (parseInt ttl 0)
      else if endsWith (cu CHR ''m'') ttl then map_option (\<lambda>n. n * msPerMinute) (parseInt ttl 0)
      else Some (24 * msPerHour))"

subsection \<open>A small browser to run the functions on\<close>

text \<open>
  Local time is Central European Time, one hour ahead of UTC, two hours from the switch
  to summer time on 29 March 2026 at 01:00 UTC. Dates are parsed in the format of
  \<open>toISOString\<close> with a four-digit year, and a paste record is written as JSON without
  escapes, which is enough for hexadecimal envelopes and dates.
\<close>

definition demoLocalTZA :: "int \<Rightarrow> bool \<Rightarrow> int" where
  "demoLocalTZA t isUTC =
     (if isUTC then (if t < 1774746000000 then 3600000 else 7200000)
      else (if t < 1774746000000 + 7200000 then 3600000 else 7200000))"

definition digitsOnly :: "jsstring \<Rightarrow> int option" where
  "digitsOnly s = (if s \<noteq> [] \<and> list_all (isRadixDigit 10) s then parseInt s 10 else None)"

definition demoDateParse :: "jsstring \<Rightarrow> int option" where
  "demoDateParse s =
     (if length s = 24 \<and> s ! 4 = cu CHR ''-'' \<and> s ! 7 = cu CHR ''-'' \<and> s ! 10 = cu CHR ''T''
         \<and> s ! 13 = cu CHR '':'' \<and> s ! 16 = cu CHR '':'' \<and> s ! 19 = cu CHR ''.''
         \<and> s ! 23 = cu CHR ''Z''
      then
        (case (digitsOnly (substring 0 (Some 4) s), digitsOnly (substring 5 (Some 7) s),
               digitsOnly (substring 8 (Some 10) s), digitsOnly (substring 11 (Some 13) s),
               digitsOnly (substring 14 (Some 16) s), digitsOnly (substring 17 (Some 19) s),
               digitsOnly (substring 20 (Some 23) s)) of
           (Some y, Some mo, Some d, Some h, Some mi, Some sec, Some ms) \<Rightarrow>
             TimeClip (MakeDate (MakeDay y (mo - 1) d) (MakeTime h mi sec ms))
         | _ \<Rightarrow> None)
      else None)"

definition quoted :: "jsstring \<Rightarrow> jsstring" where
  "quoted s = 0x22 # s @ [0x22]"

definition demoJsonStringify :: "PasteData \<Rightarrow> jsstring" where
  "demoJsonStringify p =
     str ''{'' @ quoted (str ''ciphertext'') @ str '':'' @ quoted (ciphertext p)
     @ str '','' @ quoted (str ''expiresAt'') @ str '':'' @ quoted (expiresAt p)
     @ (case hasPassword p of
          None \<Rightarrow> []
        | Some b \<Rightarrow> str '','' @ quoted (str ''hasPassword'') @ str '':''
                     @ (if b then str ''true'' else str ''false''))
     @ str ''}''"

definition dropPrefix :: "jsstring \<Rightarrow> jsstring \<Rightarrow> jsstring option" where
  "dropPrefix p s = (if take (length p) s = p then Some (drop (length p) s) else None)"

definition readQuoted :: "jsstring \<Rightarrow> (jsstring \<times> jsstring) option" where
  "readQuoted s =
     (case s of
        [] \<Rightarrow> None
      | c # r \<Rightarrow>
          if c = 0x22 \<and> dropWhile (\<lambda>x. x \<noteq> 0x22) r \<noteq> []
          then Some (takeWhile (\<lambda>x. x \<noteq> 0x22) r, tl (dropWhile (\<lambda>x. x \<noteq> 0x22) r))
          else None)"

definition demoJsonParse :: "jsstring \<Rightarrow> jsError + PasteData" where
  "demoJsonParse s =
     (case dropPrefix (str ''{'' @ quoted (str ''ciphertext'') @ str '':'') s of
        None \<Rightarrow> Inl SyntaxError
      | Some r1 \<Rightarrow>
     (case readQuoted r1 of
        None \<Rightarrow> Inl SyntaxError
      | Some (c, r2) \<Rightarrow>
     (case dropPrefix (str '','' @ quoted (str ''expiresAt'') @ str '':'') r2 of
        None \<Rightarrow> Inl SyntaxError
      | Some r3 \<Rightarrow>
     (case readQuoted r3 of
        None \<Rightarrow> Inl SyntaxError
      | Some (e, r4) \<Rightarrow>
          if r4 = str ''}'' then Inr \<lparr>ciphertext = c, expiresAt = e, hasPassword = None\<rparr>
          else if r4 = str '','' @ quoted (str ''hasPassword'') @ str '':true}''
          then Inr \<lparr>ciphertext = c, expiresAt = e, hasPassword = Some True\<rparr>
          else if r4 = str '','' @ quoted (str ''hasPassword'') @ str '':false}''
          then Inr \<lparr>ciphertext = c, expiresAt = e, hasPassword = Some False\<rparr>
          else Inl SyntaxError))))"

definition demoBrowser :: browser where
  "demoBrowser =
     \<lparr>LocalTZA = demoLocalTZA, dateParse = demoDateParse,
      jsonStringify = demoJsonStringify, jsonParse = demoJsonParse\<rparr>"


section \<open>Properties of the hex codec\<close>

lemma unat_digitChar:
  "d < 36 \<Longrightarrow> unat (digitChar d) = (if d < 10 then 48 + d else 87 + d)"
proof -
  assume d: "d < 36"
  have "unat (of_nat n :: codeunit) = n" if "n < 65536" for n
    using that by (simp only: unat_of_nat) simp
  from this [of "48 + d"] this [of "87 + d"] d show ?thesis
    unfolding digitChar_def by (simp del: of_nat_add of_nat_diff)
qed

lemma codeunit_eq_unat: "(c = numeral k) = (unat (c::codeunit) = unat (numeral k :: codeunit))"
  by (simp only: word_unat_eq_iff)

lemma digitChar_props:
  assumes "d < 16"
  shows "digitValue (digitChar d) = Some d"
    and "\<not> isStrWhiteSpaceChar (digitChar d)"
    and "\<not> isLineTerminator (digitChar d)"
    and "digitChar d \<noteq> cu CHR ''+''" and "digitChar d \<noteq> cu CHR ''-''"
    and "digitChar d \<noteq> cu CHR ''x''" and "digitChar d \<noteq> cu CHR ''X''"
  using assms
  by (auto simp: digitValue_def isStrWhiteSpaceChar_def isLineTerminator_def cu_def
      word_le_nat_alt codeunit_eq_unat unat_digitChar)

lemma isRadixDigit_digitChar: "d < 16 \<Longrightarrow> isRadixDigit 16 (digitChar d)"
  by (simp add: isRadixDigit_def digitChar_props)

lemma parseInt_hex_pair:
  assumes "a < 16" "b < 16"
  shows "parseInt [digitChar a, digitChar b] 16 = Some (int (16 * a + b))"
  using assms
  by (simp add: parseInt_def Let_def digitChar_props isRadixDigit_digitChar digitsValue_def str_def)

lemma byte_to_hex:
  "padStart 2 (cu CHR ''0'') (toStringRadix 16 (unat (b::byte)))
     = [digitChar (unat b div 16), digitChar (unat b mod 16)]"
proof -
  have lt: "unat b < 256" using unsigned_less [of b, where ?'a = nat] by simp
  show ?thesis
  proof (cases "unat b < 16")
    case True
    then show ?thesis by (simp add: toStringRadix.simps [of 16 "unat b"] padStart_def digitChar_def cu_def)
  next
    case False
    with lt have "unat b div 16 < 16" by simp
    with False show ?thesis
      by (simp add: toStringRadix.simps [of 16 "unat b"] toStringRadix.simps [of 16 "unat b div 16"] padStart_def)
  qed
qed

lemma byte_hex_roundtrip:
  "toUint8 (parseInt (padStart 2 (cu CHR ''0'') (toStringRadix 16 (unat (b::byte)))) 16) = b"
proof -
  have lt: "unat b < 256" using unsigned_less [of b, where ?'a = nat] by simp
  then have "unat b div 16 < 16" "unat b mod 16 < 16" by simp_all
  then show ?thesis
    by (simp add: byte_to_hex parseInt_hex_pair toUint8_def)
qed

lemma matchPairs_hex:
  "matchPairs (arrayBufferToHex bs)
     = map (\<lambda>b. padStart 2 (cu CHR ''0'') (toStringRadix 16 (unat b))) bs"
proof (induction bs)
  case Nil
  then show ?case by (simp add: arrayBufferToHex_def)
next
  case (Cons b bs)
  have lt: "unat b < 256" using unsigned_less [of b, where ?'a = nat] by simp
  then have "unat b div 16 < 16" "unat b mod 16 < 16" by simp_all
  with Cons show ?case
    by (simp add: arrayBufferToHex_def byte_to_hex digitChar_props)
qed

lemma hex_roundtrip: "hexToArrayBuffer (arrayBufferToHex b) = b"
proof -
  have "map (\<lambda>byte. toUint8 (parseInt byte 16)) (matchPairs (arrayBufferToHex b)) = b"
    by (simp add: matchPairs_hex o_def byte_hex_roundtrip)
  then show ?thesis
    by (cases "matchPairs (arrayBufferToHex b)") (auto simp: hexToArrayBuffer_def)
qed

lemma length_arrayBufferToHex: "length (arrayBufferToHex b) = 2 * length b"
  by (induction b) (simp_all add: arrayBufferToHex_def byte_to_hex)

section \<open>Properties of the text codec\<close>

lemma unat_byte_of_nat: "n < 256 \<Longrightarrow> unat (of_nat n :: byte) = n"
  by (simp only: unat_of_nat) simp

lemma mod_above: "q < m \<Longrightarrow> (k * m + q) mod m = (q::nat)"
  by simp

lemma lead_mod:
  "q < 32 \<Longrightarrow> (192 + q) mod 32 = (q::nat)"
  "q < 16 \<Longrightarrow> (224 + q) mod 16 = (q::nat)"
  "q < 8 \<Longrightarrow> (240 + q) mod 8 = (q::nat)"
  "r < 64 \<Longrightarrow> (128 + r) mod 64 = (r::nat)"
  using mod_above [of q 32 6] mod_above [of q 16 14] mod_above [of q 8 30] mod_above [of r 64 2]
  by simp_all

lemma utf8Decode_2:
  assumes "2 \<le> q" "q < 32" "r < 64"
  shows "utf8Decode 0 0 0x80 0xBF (of_nat (0xC0 + q) # of_nat (0x80 + r) # rest)
           = (q * 64 + r) # utf8Decode 0 0 0x80 0xBF rest"
  using assms by (simp add: unat_byte_of_nat lead_mod del: of_nat_add)

lemma utf8Decode_3:
  assumes "q < 16" "r < 64" "s < 64" "q = 0 \<longrightarrow> \<not> r < 32" "q = 13 \<longrightarrow> \<not> 31 < r"
  shows "utf8Decode 0 0 0x80 0xBF (of_nat (0xE0 + q) # of_nat (0x80 + r) # of_nat (0x80 + s) # rest)
           = ((q * 64 + r) * 64 + s) # utf8Decode 0 0 0x80 0xBF rest"
  using assms by (simp add: unat_byte_of_nat lead_mod del: of_nat_add)

lemma utf8Decode_4:
  assumes "q < 5" "r < 64" "s < 64" "t < 64" "q = 0 \<longrightarrow> \<not> r < 16" "q = 4 \<longrightarrow> \<not> 15 < r"
  shows "utf8Decode 0 0 0x80 0xBF
           (of_nat (0xF0 + q) # of_nat (0x80 + r) # of_nat (0x80 + s) # of_nat (0x80 + t) # rest)
           = (((q * 64 + r) * 64 + s) * 64 + t) # utf8Decode 0 0 0x80 0xBF rest"
  using assms by (simp add: unat_byte_of_nat lead_mod del: of_nat_add)


lemma recompose3: "(y::nat) * 64 + w = cp \<Longrightarrow> x * 64 + z = y \<Longrightarrow> cp = x * 4096 + z * 64 + w"
  by auto

lemma recompose4:
  "(y::nat) * 64 + w = cp \<Longrightarrow> x * 64 + z = y \<Longrightarrow> u * 64 + v = x
     \<Longrightarrow> cp = u * 262144 + v * 4096 + z * 64 + w"
  by auto

lemma digits3:
  "(cp::nat) = cp div 4096 * 4096 + cp div 64 mod 64 * 64 + cp mod 64"
proof -
  have "cp div 4096 = cp div 64 div 64"
    using div_mult2_eq [of cp 64 64] by simp
  with recompose3 [OF div_mult_mod_eq div_mult_mod_eq, of cp] show ?thesis
    by simp
qed

lemma digits4:
  "(cp::nat) = cp div 262144 * 262144 + cp div 4096 mod 64 * 4096 + cp div 64 mod 64 * 64 + cp mod 64"
proof -
  have "cp div 4096 = cp div 64 div 64" "cp div 262144 = cp div 64 div 64 div 64"
    using div_mult2_eq [of cp 64 64] div_mult2_eq [of "cp div 64" 64 64] div_mult2_eq [of cp 64 4096]
    by simp_all
  with recompose4 [OF div_mult_mod_eq div_mult_mod_eq div_mult_mod_eq, of cp] show ?thesis
    by simp
qed

lemma bounds3:
  fixes cp :: nat
  shows "cp = A * 4096 + B * 64 + C \<Longrightarrow> cp < 65536 \<Longrightarrow> A < 16"
    and "cp = A * 4096 + B * 64 + C \<Longrightarrow> C < 64 \<Longrightarrow> 2048 \<le> cp \<Longrightarrow> A = 0 \<Longrightarrow> \<not> B < 32"
    and "cp = A * 4096 + B * 64 + C \<Longrightarrow> B < 64 \<Longrightarrow> C < 64 \<Longrightarrow> \<not> (55296 \<le> cp \<and> cp \<le> 57343)
           \<Longrightarrow> A = 13 \<Longrightarrow> \<not> 31 < B"
  by simp_all

lemma bounds4:
  fixes cp :: nat
  shows "cp = A * 262144 + B * 4096 + C * 64 + D \<Longrightarrow> cp < 1114112 \<Longrightarrow> A < 5"
    and "cp = A * 262144 + B * 4096 + C * 64 + D \<Longrightarrow> C < 64 \<Longrightarrow> D < 64 \<Longrightarrow> 65536 \<le> cp
           \<Longrightarrow> A = 0 \<Longrightarrow> \<not> B < 16"
    and "cp = A * 262144 + B * 4096 + C * 64 + D \<Longrightarrow> cp < 1114112 \<Longrightarrow> A = 4 \<Longrightarrow> \<not> 15 < B"
  by simp_all

lemma utf8Decode_utf8Encode:
  assumes "isScalar cp"
  shows "utf8Decode 0 0 0x80 0xBF (utf8Encode cp @ rest) = cp # utf8Decode 0 0 0x80 0xBF rest"
proof -
  consider (a) "cp < 0x80" | (b) "0x80 \<le> cp" "cp < 0x800" | (c) "0x800 \<le> cp" "cp < 0x10000"
    | (d) "0x10000 \<le> cp" by linarith
  then show ?thesis
  proof cases
    case a
    then show ?thesis by (simp add: utf8Encode_def unat_byte_of_nat)
  next
    case b
    then have "2 \<le> cp div 64" "cp div 64 < 32" "cp mod 64 < 64" by simp_all
    from utf8Decode_2 [OF this, of rest] b show ?thesis
      by (simp add: utf8Encode_def del: of_nat_add)
  next
    case c
    define A B C where abc: "A = cp div 4096" "B = cp div 64 mod 64" "C = cp mod 64"
    have cp: "cp = A * 4096 + B * 64 + C" and lt: "B < 64" "C < 64"
      unfolding abc by (rule digits3) simp_all
    from c assms have "A < 16" "A = 0 \<longrightarrow> \<not> B < 32" "A = 13 \<longrightarrow> \<not> 31 < B"
      using bounds3 [OF cp] lt by (auto simp: isScalar_def)
    note dec = utf8Decode_3 [OF this(1) lt this(2,3), of rest]
    have enc: "utf8Encode cp = [of_nat (0xE0 + A), of_nat (0x80 + B), of_nat (0x80 + C)]"
      using c by (simp add: utf8Encode_def abc del: of_nat_add)
    have "(A * 64 + B) * 64 + C = cp" using cp by simp
    with dec show ?thesis unfolding enc by (simp del: of_nat_add)
  next
    case d
    define A B C D where abc: "A = cp div 262144" "B = cp div 4096 mod 64" "C = cp div 64 mod 64"
      "D = cp mod 64"
    have cp: "cp = A * 262144 + B * 4096 + C * 64 + D" and lt: "B < 64" "C < 64" "D < 64"
      unfolding abc by (rule digits4) simp_all
    from d assms have "A < 5" "A = 0 \<longrightarrow> \<not> B < 16" "A = 4 \<longrightarrow> \<not> 15 < B"
      using bounds4 [OF cp] lt by (auto simp: isScalar_def)
    note dec = utf8Decode_4 [OF this(1) lt this(2,3), of rest]
    have enc: "utf8Encode cp
        = [of_nat (0xF0 + A), of_nat (0x80 + B), of_nat (0x80 + C), of_nat (0x80 + D)]"
      using d by (simp add: utf8Encode_def abc del: of_nat_add)
    have "((A * 64 + B) * 64 + C) * 64 + D = cp" using cp by simp
    with dec show ?thesis unfolding enc by (simp del: of_nat_add)
  qed
qed

lemma utf8Decode_concat:
  "list_all isScalar cps \<Longrightarrow> utf8Decode 0 0 0x80 0xBF (concat (map utf8Encode cps)) = cps"
  by (induction cps) (simp_all add: utf8Decode_utf8Encode)


lemma unat_codeunit_lt: "unat (c::codeunit) < 65536"
  using unsigned_less [of c, where ?'a = nat] by simp

lemma surrogate_unat:
  "isHighSurrogate c = (0xD800 \<le> unat c \<and> unat c \<le> 0xDBFF)"
  "isLowSurrogate c = (0xDC00 \<le> unat c \<and> unat c \<le> 0xDFFF)"
  by (simp_all add: isHighSurrogate_def isLowSurrogate_def word_le_nat_alt)

lemma isScalar_unit:
  "\<not> isHighSurrogate c \<Longrightarrow> \<not> isLowSurrogate c \<Longrightarrow> isScalar (unat c)"
  using unat_codeunit_lt [of c] by (auto simp: isScalar_def surrogate_unat)

lemma isScalar_pair:
  "isHighSurrogate c \<Longrightarrow> isLowSurrogate d
     \<Longrightarrow> isScalar (0x10000 + (unat c - 0xD800) * 0x400 + (unat d - 0xDC00))"
  by (auto simp: isScalar_def surrogate_unat)

lemma isScalar_toScalarValues: "list_all isScalar (toScalarValues s)"
proof (induction s rule: toScalarValues.induct)
  case 1
  then show ?case by simp
next
  case (2 c)
  then show ?case by (simp add: isScalar_unit) (simp add: isScalar_def)
next
  case (3 c d rest)
  then show ?case
    by (simp add: isScalar_unit isScalar_pair) (simp add: isScalar_def)
qed

lemma utf16Encode_unit:
  "utf16Encode (unat (c::codeunit)) = [c]"
  using unat_codeunit_lt [of c] by (simp add: utf16Encode_def)

lemma utf16Encode_pair:
  assumes "isHighSurrogate c" "isLowSurrogate d"
  shows "utf16Encode (0x10000 + (unat c - 0xD800) * 0x400 + (unat d - 0xDC00)) = [c, d]"
proof -
  define h l where hl: "h = unat c - 0xD800" "l = unat d - 0xDC00"
  from assms have lt: "h < 0x400" "l < 0x400"
    and c: "unat c = 0xD800 + h" and d: "unat d = 0xDC00 + l"
    by (auto simp: hl surrogate_unat)
  have "(h * 0x400 + l) div 0x400 = h" "(h * 0x400 + l) mod 0x400 = l"
    using lt by simp_all
  then have "utf16Encode (0x10000 + h * 0x400 + l) = [of_nat (0xD800 + h), of_nat (0xDC00 + l)]"
    by (simp add: utf16Encode_def del: of_nat_add)
  also have "\<dots> = [c, d]"
    by (simp only: c [symmetric] d [symmetric]) simp
  finally show ?thesis by (simp add: hl)
qed

lemma utf16_roundtrip:
  "isWellFormed s \<Longrightarrow> concat (map utf16Encode (toScalarValues s)) = s"
proof (induction s rule: toScalarValues.induct)
  case 1
  then show ?case by simp
next
  case (2 c)
  then show ?case by (simp add: utf16Encode_unit)
next
  case (3 c d rest)
  then show ?case
    by (auto simp: utf16Encode_unit utf16Encode_pair split: if_splits)
qed

lemma hd_toScalarValues:
  "toScalarValues s = cp # cps \<Longrightarrow> cp = 0xFEFF \<Longrightarrow> s \<noteq> [] \<and> hd s = 0xFEFF"
proof (cases s rule: toScalarValues.cases)
  case 1
  assume "toScalarValues s = cp # cps" with 1 show ?thesis by simp
next
  case (2 c)
  assume "toScalarValues s = cp # cps" "cp = 0xFEFF"
  with 2 show ?thesis by (auto split: if_splits simp: word_unat_eq_iff)
next
  case (3 c d rest)
  assume "toScalarValues s = cp # cps" "cp = 0xFEFF"
  with 3 show ?thesis by (auto split: if_splits simp: word_unat_eq_iff surrogate_unat)
qed

lemma skipBOM_toScalarValues:
  "s = [] \<or> hd s \<noteq> 0xFEFF \<Longrightarrow> skipBOM (toScalarValues s) = toScalarValues s"
  using hd_toScalarValues [of s]
  by (cases "toScalarValues s") (auto simp: skipBOM_def)

lemma utf8Decode_strToUint8Array:
  "utf8Decode 0 0 0x80 0xBF (strToUint8Array s) = toScalarValues s"
  by (simp add: strToUint8Array_def utf8Decode_concat isScalar_toScalarValues)

lemma text_roundtrip:
  assumes "isWellFormed s" "s = [] \<or> hd s \<noteq> 0xFEFF"
  shows "uint8ArrayToStr (strToUint8Array s) = s"
  using assms
  by (simp add: uint8ArrayToStr_def utf8Decode_strToUint8Array skipBOM_toScalarValues utf16_roundtrip)


section \<open>Properties of encryption and decryption\<close>

lemma length_getRandomValues: "length (fst (getRandomValues n rs)) = n"
  by (simp add: getRandomValues_def)

lemma substring_prefix: "length a = n \<Longrightarrow> substring 0 (Some n) (a @ b) = a"
  by (simp add: substring_def Let_def)

lemma substring_suffix: "length a = n \<Longrightarrow> substring n None (a @ b) = b"
  by (simp add: substring_def Let_def)

lemma substring_middle:
  "length a = m \<Longrightarrow> length b = n \<Longrightarrow> substring m (Some (m + n)) (a @ b @ c) = b"
  by (simp add: substring_def Let_def min_def max_def)

lemma radixDigit_not_terminator: "isRadixDigit 16 c \<Longrightarrow> \<not> isLineTerminator c"
  by (auto simp: isRadixDigit_def digitValue_def isLineTerminator_def split: if_splits)

lemma length_matchPairs:
  "list_all (\<lambda>c. \<not> isLineTerminator c) s \<Longrightarrow> length (matchPairs s) = (length s + 1) div 2"
  by (induction s rule: matchPairs.induct) simp_all

lemma length_hexToArrayBuffer:
  "list_all (isRadixDigit 16) s \<Longrightarrow> length (hexToArrayBuffer s) = (length s + 1) div 2"
proof -
  assume "list_all (isRadixDigit 16) s"
  then have "list_all (\<lambda>c. \<not> isLineTerminator c) s"
    by (simp add: list_all_iff radixDigit_not_terminator)
  from length_matchPairs [OF this] show ?thesis
    by (cases "matchPairs s") (simp_all add: hexToArrayBuffer_def)
qed

lemma importKey_hexKey: "isHexKey k \<Longrightarrow> importKey k = Inr (hexToArrayBuffer k)"
  by (simp add: isHexKey_def importKey_def subtleImportKey_def length_hexToArrayBuffer)

lemma encrypt_hexKey:
  assumes "isHexKey k"
  shows "encrypt pf text k rs =
    (Inr (arrayBufferToHex (fst (getRandomValues 12 rs))
          @ arrayBufferToHex (aesGcmEncrypt pf (hexToArrayBuffer k) (fst (getRandomValues 12 rs))
               (strToUint8Array text))),
     snd (getRandomValues 12 rs))"
  by (simp add: encrypt_def importKey_hexKey [OF assms] Let_def split_beta)

lemma decrypt_envelope:
  assumes "length iv = 12"
  shows "decrypt pf (arrayBufferToHex iv @ arrayBufferToHex ct) k =
    (case importKey k of
       Inl e \<Rightarrow> Inl e
     | Inr key \<Rightarrow>
         (case aesGcmDecrypt pf key iv ct of
            Inl e \<Rightarrow> Inl (Error ''Failed to decrypt: Invalid key or corrupted data'')
          | Inr decrypted \<Rightarrow> Inr (uint8ArrayToStr decrypted)))"
  using assms
  by (simp add: decrypt_def Let_def substring_prefix substring_suffix length_arrayBufferToHex
      hex_roundtrip cong: sum.case_cong)

lemma decrypt_encrypt_hexKeys:
  assumes "isHexKey k1" "isHexKey k2"
  shows "decrypt_encrypt pf text k1 k2 rs =
    (case aesGcmDecrypt pf (hexToArrayBuffer k2) (fst (getRandomValues 12 rs))
            (aesGcmEncrypt pf (hexToArrayBuffer k1) (fst (getRandomValues 12 rs))
               (strToUint8Array text)) of
       Inl e \<Rightarrow> Inl (Error ''Failed to decrypt: Invalid key or corrupted data'')
     | Inr decrypted \<Rightarrow> Inr (uint8ArrayToStr decrypted))"
  by (simp add: decrypt_encrypt_def encrypt_hexKey [OF assms(1)] decrypt_envelope
      length_getRandomValues importKey_hexKey [OF assms(2)])

lemma decryptWithPassword_envelope:
  assumes "length salt = 16" "length iv = 12"
  shows "decryptWithPassword pf (arrayBufferToHex salt @ arrayBufferToHex iv @ arrayBufferToHex ct) w =
    (case aesGcmDecrypt pf (deriveKeyFromPassword pf w salt) iv ct of
       Inl e \<Rightarrow> Inl (Error ''Failed to decrypt: Invalid password or corrupted data'')
     | Inr decrypted \<Rightarrow> Inr (uint8ArrayToStr decrypted))"
proof -
  let ?c = "arrayBufferToHex salt @ arrayBufferToHex iv @ arrayBufferToHex ct"
  have 1: "substring 0 (Some 32) ?c = arrayBufferToHex salt"
    using assms by (simp add: substring_prefix length_arrayBufferToHex)
  have 2: "substring 32 (Some 56) ?c = arrayBufferToHex iv"
    using assms substring_middle [of "arrayBufferToHex salt" 32 "arrayBufferToHex iv" 24]
    by (simp add: length_arrayBufferToHex)
  have 3: "substring 56 None ?c = arrayBufferToHex ct"
    using assms substring_suffix [of "arrayBufferToHex salt @ arrayBufferToHex iv" 56]
    by (simp add: length_arrayBufferToHex)
  show ?thesis
    unfolding decryptWithPassword_def Let_def 1 2 3 by (simp add: hex_roundtrip)
qed

lemma encryptWithPassword_unfold:
  "fst (encryptWithPassword pf text w rs) =
     arrayBufferToHex (fst (getRandomValues 16 rs))
     @ arrayBufferToHex (fst (getRandomValues 12 (snd (getRandomValues 16 rs))))
     @ arrayBufferToHex (aesGcmEncrypt pf
          (deriveKeyFromPassword pf w (fst (getRandomValues 16 rs)))
          (fst (getRandomValues 12 (snd (getRandomValues 16 rs)))) (strToUint8Array text))"
  by (simp add: encryptWithPassword_def Let_def split_beta)

lemma decrypt_encryptWithPassword_unfold:
  "decrypt_encryptWithPassword pf text w1 w2 rs =
    (case aesGcmDecrypt pf (deriveKeyFromPassword pf w2 (fst (getRandomValues 16 rs)))
            (fst (getRandomValues 12 (snd (getRandomValues 16 rs))))
            (aesGcmEncrypt pf (deriveKeyFromPassword pf w1 (fst (getRandomValues 16 rs)))
               (fst (getRandomValues 12 (snd (getRandomValues 16 rs)))) (strToUint8Array text)) of
       Inl e \<Rightarrow> Inl (Error ''Failed to decrypt: Invalid password or corrupted data'')
     | Inr decrypted \<Rightarrow> Inr (uint8ArrayToStr decrypted))"
  by (simp add: decrypt_encryptWithPassword_def encryptWithPassword_unfold
      decryptWithPassword_envelope length_getRandomValues)

lemma demo_aeadCorrect: "aeadCorrect demoPlatform"
  by (simp add: aeadCorrect_def demoPlatform_def demoEncrypt_def demoDecrypt_def)

lemma demo_aeadRejectsOtherKey: "aeadRejectsOtherKey demoPlatform"
  by (simp add: aeadRejectsOtherKey_def demoPlatform_def demoEncrypt_def demoDecrypt_def)


section \<open>Evaluation on concrete inputs\<close>

lemma digitValue_cases:
  assumes "digitValue c = Some x"
  shows "\<not> isStrWhiteSpaceChar c" "\<not> isLineTerminator c" "c \<noteq> cu CHR ''+''" "c \<noteq> cu CHR ''-''"
    and "x < 16 \<Longrightarrow> c \<noteq> cu CHR ''x'' \<and> c \<noteq> cu CHR ''X''"
    and "16 \<le> x \<Longrightarrow> c \<noteq> cu CHR ''0''"
  using assms
  by (auto simp: digitValue_def isStrWhiteSpaceChar_def isLineTerminator_def cu_def
      word_le_nat_alt codeunit_eq_unat split: if_splits)

lemma hexPair_eval:
  assumes "digitValue a = Some x" "digitValue b = Some y" "x < 16" "y < 16"
  shows "toUint8 (parseInt [a, b] 16) = of_nat (16 * x + y)"
  using assms digitValue_cases [OF assms(1)] digitValue_cases [OF assms(2)]
  by (simp add: parseInt_def Let_def isRadixDigit_def digitsValue_def toUint8_def str_def)

lemma nonHex_eval:
  assumes "digitValue a = Some x" "16 \<le> x"
  shows "toUint8 (parseInt (a # rest) 16) = 0"
  using assms digitValue_cases [OF assms(1)]
  by (simp add: parseInt_def Let_def isRadixDigit_def digitsValue_def toUint8_def str_def)


lemmas eval_hex = hexToArrayBuffer_def str_def cu_def isLineTerminator_def digitValue_def
  hexPair_eval nonHex_eval

lemma demoKey_isHexKey: "isHexKey demoKey" "isHexKey demoKey2"
  by (simp_all add: isHexKey_def demoKey_def demoKey2_def str_def cu_def isRadixDigit_def digitValue_def)

lemma demoKey_bytes:
  "hexToArrayBuffer demoKey = [0,1,2,3,4,5,6,7,8,9,10,11,12,13,14,15,16,17,18,19,20,21,22,23,24,25,26,27,28,29,30,31]"
  "hexToArrayBuffer demoKey2 = [255,1,2,3,4,5,6,7,8,9,10,11,12,13,14,15,16,17,18,19,20,21,22,23,24,25,26,27,28,29,30,31]"
  by (simp_all add: demoKey_def demoKey2_def eval_hex)

lemma countingSource_12: "fst (getRandomValues 12 (countingSource 0)) = [0,1,2,3,4,5,6,7,8,9,10,11]"
  by (simp add: getRandomValues_def countingSource_def upt_rec)

lemma text_hi: "strToUint8Array (str ''hi'') = [104, 105]" "uint8ArrayToStr [104, 105] = str ''hi''"
  by (simp_all add: strToUint8Array_def uint8ArrayToStr_def str_def cu_def isHighSurrogate_def
      isLowSurrogate_def utf8Encode_def utf16Encode_def skipBOM_def)

lemma text_bom: "uint8ArrayToStr (strToUint8Array [0xFEFF]) = []"
  by (simp add: strToUint8Array_def uint8ArrayToStr_def isHighSurrogate_def
      isLowSurrogate_def utf8Encode_def utf16Encode_def skipBOM_def)

section \<open>The claims\<close>

text \<open>
  Claim C8. For every finite byte sequence \<open>b\<close>, decoding its hex encoding gives
  \<open>b\<close> back: \<open>hexToArrayBuffer(arrayBufferToHex(b)) = b\<close>.
\<close>

theorem hexToArrayBuffer_arrayBufferToHex: "hexToArrayBuffer (arrayBufferToHex b) = b"
  by (rule hex_roundtrip)

text \<open>
  Claim C1, as stated, fails: the plaintext that consists of U+FEFF alone is encrypted
  as the bytes EF BB BF, and \<open>TextDecoder\<close> takes them for a byte order mark, so
  decryption under the same key returns the empty string.
\<close>

theorem decrypt_encrypt_bom_counterexample:
  "aeadCorrect demoPlatform \<and> isHexKey demoKey
   \<and> decrypt_encrypt demoPlatform [0xFEFF] demoKey demoKey (countingSource 0) = Inr []"
  using demo_aeadCorrect
  by (simp add: demoKey_isHexKey decrypt_encrypt_hexKeys aeadCorrect_def text_bom)

text \<open>
  Claim C1, amended. For every plaintext \<open>p\<close> that is well formed (no unpaired
  surrogate) and does not begin with U+FEFF, and every key \<open>k\<close> of 64 hexadecimal
  digits, decrypting under \<open>k\<close> the envelope of \<open>p\<close> encrypted under \<open>k\<close> returns
  \<open>p\<close>, for any state of the random source, when the cipher's decryption inverts its
  encryption.
\<close>

theorem decrypt_encrypt_roundtrip:
  assumes "aeadCorrect pf" and "isHexKey k"
    and "isWellFormed p" and "p = [] \<or> hd p \<noteq> 0xFEFF"
  shows "decrypt_encrypt pf p k k rs = Inr p"
  using assms
  by (simp add: decrypt_encrypt_hexKeys aeadCorrect_def text_roundtrip)

text \<open>Claim C1, amended: the hypotheses hold for \<open>hello world\<close> and the small cipher.\<close>

theorem decrypt_encrypt_roundtrip_witness:
  "aeadCorrect demoPlatform \<and> isHexKey demoKey \<and> isWellFormed (str ''hello world'')
   \<and> (str ''hello world'' = [] \<or> hd (str ''hello world'') \<noteq> 0xFEFF)
   \<and> decrypt_encrypt demoPlatform (str ''hello world'') demoKey demoKey (countingSource 0)
       = Inr (str ''hello world'')"
proof -
  have wf: "isWellFormed (str ''hello world'')"
    by (simp add: str_def cu_def isHighSurrogate_def isLowSurrogate_def)
  have nb: "str ''hello world'' = [] \<or> hd (str ''hello world'') \<noteq> 0xFEFF"
    by (simp add: str_def cu_def)
  from decrypt_encrypt_roundtrip [OF demo_aeadCorrect demoKey_isHexKey(1) wf nb]
  show ?thesis using demo_aeadCorrect demoKey_isHexKey(1) wf nb by simp
qed

text \<open>
  Claim C2, as stated, fails in the same way: with a password, the plaintext U+FEFF comes
  back as the empty string.
\<close>

theorem decrypt_encryptWithPassword_bom_counterexample:
  "aeadCorrect demoPlatform
   \<and> decrypt_encryptWithPassword demoPlatform [0xFEFF] (str ''pw'') (str ''pw'') (countingSource 0)
       = Inr []"
  using demo_aeadCorrect
  by (simp add: decrypt_encryptWithPassword_unfold aeadCorrect_def text_bom)

text \<open>
  Claim C2, amended. For every plaintext \<open>p\<close> that is well formed and does not begin
  with U+FEFF, and every password \<open>w\<close>, decrypting with \<open>w\<close> the envelope of \<open>p\<close>
  encrypted with \<open>w\<close> returns \<open>p\<close>, when the cipher's decryption inverts its
  encryption. The key is a function of the password and the salt alone: PBKDF2 with
  HMAC-SHA-256 and 100000 iterations.
\<close>

theorem decrypt_encryptWithPassword_roundtrip:
  assumes "aeadCorrect pf" and "isWellFormed p" and "p = [] \<or> hd p \<noteq> 0xFEFF"
  shows "decrypt_encryptWithPassword pf p w w rs = Inr p
         \<and> deriveKeyFromPassword pf w salt = pbkdf2HmacSha256 pf (strToUint8Array w) salt 100000"
  using assms
  by (simp add: decrypt_encryptWithPassword_unfold aeadCorrect_def text_roundtrip
      deriveKeyFromPassword_def)

text \<open>Claim C2, amended: the hypotheses hold for \<open>hello world\<close> and the small cipher.\<close>

theorem decrypt_encryptWithPassword_roundtrip_witness:
  "aeadCorrect demoPlatform \<and> isWellFormed (str ''hello world'')
   \<and> (str ''hello world'' = [] \<or> hd (str ''hello world'') \<noteq> 0xFEFF)
   \<and> decrypt_encryptWithPassword demoPlatform (str ''hello world'') (str ''pw'') (str ''pw'')
         (countingSource 0) = Inr (str ''hello world'')"
proof -
  have wf: "isWellFormed (str ''hello world'')"
    by (simp add: str_def cu_def isHighSurrogate_def isLowSurrogate_def)
  have nb: "str ''hello world'' = [] \<or> hd (str ''hello world'') \<noteq> 0xFEFF"
    by (simp add: str_def cu_def)
  from decrypt_encryptWithPassword_roundtrip [OF demo_aeadCorrect wf nb]
  show ?thesis using demo_aeadCorrect wf nb by simp
qed

end
